theory Spec2Isabelle
  imports Main
begin

section \<open>Constants imported by both source files\<close>

text \<open>
  \<^verbatim>\<open>License.ts\<close> imports \<^verbatim>\<open>SETTINGS_LICENSE_CERT_KEY\<close>, \<^verbatim>\<open>UNLIMITED_LICENSE_QUOTA\<close> and
  \<^verbatim>\<open>N8N_VERSION\<close> from \<^verbatim>\<open>./constants\<close>, and \<^verbatim>\<open>license-state.ts\<close> imports
  \<^verbatim>\<open>UNLIMITED_LICENSE_QUOTA\<close> from \<^verbatim>\<open>@n8n/constants\<close>. Neither module is part of the
  sources at hand, so the constants are a parameter of every function that reads them.
\<close>

record constants =
  SETTINGS_LICENSE_CERT_KEY :: string
  UNLIMITED_LICENSE_QUOTA :: int
  N8N_VERSION :: string

section \<open>\<^verbatim>\<open>license-state.ts\<close>: the \<^verbatim>\<open>LicenseState\<close> service\<close>

text \<open>
  A feature is named by a string (\<^verbatim>\<open>BooleanLicenseFeature\<close> and the keys of
  \<^verbatim>\<open>FeatureReturnType\<close> are unions of string literals). A feature value is a number, a
  string or a boolean; \<^verbatim>\<open>undefined\<close> is \<open>None\<close>.
\<close>

type_synonym feature = string

datatype feature_value = Num int | Str string | Bool bool

text \<open>The \<^verbatim>\<open>LicenseProvider\<close> interface: the two queries the service forwards to.\<close>

record LicenseProvider =
  provider_isLicensed :: "feature \<Rightarrow> bool"
  provider_getValue :: "feature \<Rightarrow> feature_value option"

text \<open>
  \<^verbatim>\<open>class ProviderNotSetError extends UnexpectedError\<close> is the only exception the class
  raises itself; \<open>message\<close> is the text its constructor passes to \<^verbatim>\<open>super\<close>.
\<close>

datatype error = ProviderNotSetError

fun message :: "error \<Rightarrow> string" where
  "message ProviderNotSetError =
     ''Cannot query license state because license provider has not been set''"

record LicenseState =
  licenseProvider :: "LicenseProvider option"

text \<open>The field initialiser \<^verbatim>\<open>licenseProvider: LicenseProvider | null = null\<close>.\<close>

definition new_LicenseState :: LicenseState where
  "new_LicenseState = \<lparr>licenseProvider = None\<rparr>"

definition setLicenseProvider :: "LicenseProvider \<Rightarrow> LicenseState \<Rightarrow> LicenseState" where
  "setLicenseProvider provider s = s\<lparr>licenseProvider := Some provider\<rparr>"

text \<open>
  \<^verbatim>\<open>assertProvider\<close> throws when the field is \<^verbatim>\<open>null\<close> and otherwise narrows the type of
  \<^verbatim>\<open>this\<close>: the model returns the provider it has found.
\<close>

definition assertProvider :: "LicenseState \<Rightarrow> error + LicenseProvider" where
  "assertProvider s =
     (case licenseProvider s of
        None \<Rightarrow> Inl ProviderNotSetError
      | Some provider \<Rightarrow> Inr provider)"

definition isLicensed :: "LicenseState \<Rightarrow> feature \<Rightarrow> error + bool" where
  "isLicensed s feature =
     (case assertProvider s of
        Inl e \<Rightarrow> Inl e
      | Inr provider \<Rightarrow> Inr (provider_isLicensed provider feature))"

definition getValue :: "LicenseState \<Rightarrow> feature \<Rightarrow> error + feature_value option" where
  "getValue s feature =
     (case assertProvider s of
        Inl e \<Rightarrow> Inl e
      | Inr provider \<Rightarrow> Inr (provider_getValue provider feature))"

section \<open>\<^verbatim>\<open>License.ts\<close>: the \<^verbatim>\<open>License\<close> service\<close>

text \<open>
  The file holds two successive texts of the class: the first at lines 28 to 410, the
  second at lines 439 to 850. Where a method has the same text in both, one definition
  stands for both; where the texts differ, the definition for the second class carries
  the suffix \<open>2\<close>.
\<close>

subsection \<open>Configuration and injected services\<close>

text \<open>
  The keys the class reads through \<^verbatim>\<open>config.getEnv\<close> and \<^verbatim>\<open>config.get\<close>. The second class
  reads the multi-main switch from \<^verbatim>\<open>this.globalConfig.multiMainSetup.enabled\<close>: it is the
  same field here. \<^verbatim>\<open>license.cert\<close> is a string, and JavaScript takes the empty string
  for false, so "an ephemeral certificate is configured" is \<open>license_cert cfg \<noteq> []\<close>.
\<close>

record config =
  license_serverUrl :: string
  license_tenantId :: int
  license_autoRenewEnabled :: bool
  license_autoRenewOffset :: int
  license_cert :: string
  executions_mode :: string
  multiMainSetup_enabled :: bool
  multiMainSetup_instanceType :: string
  binaryDataManager_mode :: string
  binaryDataManager_availableModes :: "string list"

text \<open>\<^verbatim>\<open>InstanceSettings\<close> (from \<^verbatim>\<open>n8n-core\<close>), with the properties the class reads.\<close>

record InstanceSettings =
  instanceType :: string
  instanceId :: string
  isFollower :: bool

text \<open>
  \<^verbatim>\<open>OrchestrationService\<close>: the flag that \<^verbatim>\<open>setMultiMainSetupLicensed\<close> stores and the
  \<^verbatim>\<open>isFollower\<close> property the first class reads. Its getter \<^verbatim>\<open>isMultiMainSetupEnabled\<close>
  is code of the service, which is not at hand: the reactor takes it as a parameter, a
  function of the service's state.
\<close>

record OrchestrationService =
  isMultiMainSetupLicensed :: bool
  orchestration_isFollower :: bool

definition setMultiMainSetupLicensed :: "bool \<Rightarrow> OrchestrationService \<Rightarrow> OrchestrationService" where
  \<comment> \<open>Modelled from the spec: the orchestration service's setter, which is not among the
     sources ("propagate that boolean into the orchestration/coordination component").\<close>
  "setMultiMainSetupLicensed newState orch = orch\<lparr>isMultiMainSetupLicensed := newState\<rparr>"

subsection \<open>The certificate in the settings table\<close>

text \<open>A row of the settings table without its key, and the table as a map from keys.\<close>

record Settings =
  settings_value :: string
  loadOnStartup :: bool

type_synonym SettingsRepository = "string \<rightharpoonup> Settings"

definition findOne :: "SettingsRepository \<Rightarrow> string \<Rightarrow> Settings option" where
  \<comment> \<open>Modelled from the spec: the settings repository, which is not among the sources
     ("single key-value row", \<^verbatim>\<open>findOne\<close> by key).\<close>
  "findOne repo key = repo key"

definition upsert :: "string \<Rightarrow> Settings \<Rightarrow> SettingsRepository \<Rightarrow> SettingsRepository" where
  \<comment> \<open>Modelled from the spec: the settings repository, which is not among the sources
     (\<^verbatim>\<open>upsert(["key"])\<close>: "overwrite row matching key").\<close>
  "upsert key row repo = repo(key \<mapsto> row)"

definition loadCertStr :: "constants \<Rightarrow> config \<Rightarrow> SettingsRepository \<Rightarrow> string" where
  "loadCertStr k cfg repo =
     (let ephemeralLicense = license_cert cfg in
      if ephemeralLicense \<noteq> [] then ephemeralLicense
      else
        (case findOne repo (SETTINGS_LICENSE_CERT_KEY k) of
           None \<Rightarrow> []
         | Some databaseSettings \<Rightarrow> settings_value databaseSettings))"

definition saveCertStr ::
  "constants \<Rightarrow> config \<Rightarrow> string \<Rightarrow> SettingsRepository \<Rightarrow> SettingsRepository" where
  "saveCertStr k cfg val repo =
     (if license_cert cfg \<noteq> [] then repo
      else upsert (SETTINGS_LICENSE_CERT_KEY k)
             \<lparr>settings_value = val, loadOnStartup = False\<rparr> repo)"

subsection \<open>Renewal eligibility\<close>

text \<open>
  First class, lines 47 to 62. The last statement is \<^verbatim>\<open>return false\<close>: outside a multi-main
  setup the method no longer returns \<^verbatim>\<open>autoRenewEnabled\<close>.
\<close>

definition renewalEnabled :: "config \<Rightarrow> string \<Rightarrow> bool" where
  "renewalEnabled cfg instType =
     (if instType \<noteq> ''main'' then False
      else
        let autoRenewEnabled = license_autoRenewEnabled cfg in
        if multiMainSetup_enabled cfg
        then autoRenewEnabled \<and> multiMainSetup_instanceType cfg = ''leader''
        else False)"

text \<open>
  Second class, lines 459 to 475. The first statement of the body is \<^verbatim>\<open>return false\<close>;
  the statements after it are never reached.
\<close>

definition renewalEnabled2 :: "config \<Rightarrow> InstanceSettings \<Rightarrow> bool" where
  "renewalEnabled2 globalConfig instanceSettings = False"

subsection \<open>The manager handle and its lifecycle\<close>

text \<open>
  \<^verbatim>\<open>LicenseManager\<close> belongs to the license SDK. Of an object of that class the model
  keeps its identity and the options \<^verbatim>\<open>init\<close> has passed to the constructor. The two
  callbacks that depend on the instance type are kept as the flag that chooses them:
  true for the closure that forwards to the method of \<^verbatim>\<open>License\<close>, false for
  \<^verbatim>\<open>async () => {}\<close>.
\<close>

record LicenseManagerOptions =
  server :: string
  tenantId :: int
  productIdentifier :: string
  autoRenewEnabled :: bool
  renewOnInit :: bool
  autoRenewOffset :: int
  offlineMode :: bool
  saveCertStr_forwards :: bool
  onFeatureChange_forwards :: bool

record LicenseManager =
  ident :: nat
  options :: LicenseManagerOptions

text \<open>
  The fields of \<^verbatim>\<open>License\<close> that \<^verbatim>\<open>init\<close> and \<^verbatim>\<open>shutdown\<close> read and write. (The
  first class has a third field, \<^verbatim>\<open>redisPublisher\<close>, which only \<^verbatim>\<open>onFeatureChange\<close> touches;
  it is part of the state of the reactor below.)
\<close>

record License =
  manager :: "LicenseManager option"
  isShuttingDown :: bool

text \<open>
  The \<^verbatim>\<open>License\<close> object together with every \<^verbatim>\<open>LicenseManager\<close> that
  \<^verbatim>\<open>new LicenseManager\<close> has returned so far, oldest first. A new object's identity is
  its position in that list, so two constructions never yield the same handle.
\<close>

record process =
  license :: License
  constructed :: "LicenseManager list"

definition new_License :: process where
  "new_License = \<lparr>license = \<lparr>manager = None, isShuttingDown = False\<rparr>, constructed = []\<rparr>"

text \<open>
  What the SDK does during one call of \<^verbatim>\<open>init\<close>: the constructor and
  \<^verbatim>\<open>manager.initialize()\<close> each return or throw. Both stand inside the \<^verbatim>\<open>try\<close> block of
  \<^verbatim>\<open>init\<close>. The logger is not modelled: the class only writes to it.
\<close>

datatype outcome = Returns | Throws

record sdk =
  new_LicenseManager :: outcome
  initialize :: outcome

text \<open>
  First class, lines 64 to 116. When the constructor throws, the assignment to
  \<^verbatim>\<open>this.manager\<close> does not take place and the \<^verbatim>\<open>catch\<close> block swallows the exception.
  When \<^verbatim>\<open>initialize\<close> throws, the handle has been assigned already and stays.
\<close>

definition init :: "constants \<Rightarrow> config \<Rightarrow> sdk \<Rightarrow> string \<Rightarrow> bool \<Rightarrow> process \<Rightarrow> process" where
  "init k cfg lib instType forceRecreate p =
     (if manager (license p) \<noteq> None \<and> \<not> forceRecreate then p
      else if isShuttingDown (license p) then p
      else
        let isMainInstance = (instType = ''main'');
            offline = \<not> isMainInstance;
            renewal = renewalEnabled cfg instType;
            opts = \<lparr>server = license_serverUrl cfg,
                    tenantId = license_tenantId cfg,
                    productIdentifier = ''n8n-'' @ N8N_VERSION k,
                    autoRenewEnabled = renewal,
                    renewOnInit = renewal,
                    autoRenewOffset = license_autoRenewOffset cfg,
                    offlineMode = offline,
                    saveCertStr_forwards = isMainInstance,
                    onFeatureChange_forwards = isMainInstance\<rparr>
        in
          (case new_LicenseManager lib of
             Throws \<Rightarrow> p
           | Returns \<Rightarrow>
               let m = \<lparr>ident = length (constructed p), options = opts\<rparr>;
                   p' = p\<lparr>license := (license p)\<lparr>manager := Some m\<rparr>,
                          constructed := constructed p @ [m]\<rparr>
               in (case initialize lib of Returns \<Rightarrow> p' | Throws \<Rightarrow> p')))"

text \<open>
  Second class, lines 477 to 537: the instance type comes from
  \<^verbatim>\<open>this.instanceSettings\<close> and the renewal flag from the second \<^verbatim>\<open>renewalEnabled\<close>.
\<close>

definition init2 ::
  "constants \<Rightarrow> config \<Rightarrow> InstanceSettings \<Rightarrow> sdk \<Rightarrow> bool \<Rightarrow> process \<Rightarrow> process" where
  "init2 k cfg instanceSettings lib forceRecreate p =
     (if manager (license p) \<noteq> None \<and> \<not> forceRecreate then p
      else if isShuttingDown (license p) then p
      else
        let isMainInstance = (instanceType instanceSettings = ''main'');
            offline = \<not> isMainInstance;
            renewal = renewalEnabled2 cfg instanceSettings;
            opts = \<lparr>server = license_serverUrl cfg,
                    tenantId = license_tenantId cfg,
                    productIdentifier = ''n8n-'' @ N8N_VERSION k,
                    autoRenewEnabled = renewal,
                    renewOnInit = renewal,
                    autoRenewOffset = license_autoRenewOffset cfg,
                    offlineMode = offline,
                    saveCertStr_forwards = isMainInstance,
                    onFeatureChange_forwards = isMainInstance\<rparr>
        in
          (case new_LicenseManager lib of
             Throws \<Rightarrow> p
           | Returns \<Rightarrow>
               let m = \<lparr>ident = length (constructed p), options = opts\<rparr>;
                   p' = p\<lparr>license := (license p)\<lparr>manager := Some m\<rparr>,
                          constructed := constructed p @ [m]\<rparr>
               in (case initialize lib of Returns \<Rightarrow> p' | Throws \<Rightarrow> p')))"

text \<open>
  \<^verbatim>\<open>shutdown\<close>, the same in both classes. The flag is set by the first statement, before
  the method looks at the handle and before it awaits \<^verbatim>\<open>manager.shutdown()\<close>; nothing
  after that statement writes a field of \<^verbatim>\<open>License\<close>. The state below is therefore the
  state from the first statement on: while the SDK's shutdown is in flight, after it
  has returned, and after it has thrown.
\<close>

definition shutdown :: "process \<Rightarrow> process" where
  "shutdown p = p\<lparr>license := (license p)\<lparr>isShuttingDown := True\<rparr>\<rparr>"

text \<open>
  \<^verbatim>\<open>reinit\<close>: \<^verbatim>\<open>manager.reset()\<close> acts inside the SDK object, then \<^verbatim>\<open>init\<close> runs with
  \<^verbatim>\<open>forceRecreate\<close> set (and, in the first class, for the instance type \<^verbatim>\<open>main\<close>).
\<close>

definition reinit :: "constants \<Rightarrow> config \<Rightarrow> sdk \<Rightarrow> process \<Rightarrow> process" where
  "reinit k cfg lib p = init k cfg lib ''main'' True p"

definition reinit2 :: "constants \<Rightarrow> config \<Rightarrow> InstanceSettings \<Rightarrow> sdk \<Rightarrow> process \<Rightarrow> process" where
  "reinit2 k cfg instanceSettings lib p = init2 k cfg instanceSettings lib True p"

text \<open>
  Sequences of calls. Between its two guards and the assignment of the handle \<^verbatim>\<open>init\<close>
  has no \<^verbatim>\<open>await\<close>, so on JavaScript's single thread no other call runs in between and
  the calls of a process act on the fields one after the other. A call of the first
  class carries what the SDK does, the instance type and \<^verbatim>\<open>forceRecreate\<close>; a call of the
  second class has no instance type argument.
\<close>

fun inits :: "constants \<Rightarrow> config \<Rightarrow> (sdk \<times> string \<times> bool) list \<Rightarrow> process \<Rightarrow> process" where
  "inits k cfg [] p = p"
| "inits k cfg ((lib, instType, forceRecreate) # calls) p =
     inits k cfg calls (init k cfg lib instType forceRecreate p)"

fun inits2 ::
  "constants \<Rightarrow> config \<Rightarrow> InstanceSettings \<Rightarrow> (sdk \<times> bool) list \<Rightarrow> process \<Rightarrow> process" where
  "inits2 k cfg instanceSettings [] p = p"
| "inits2 k cfg instanceSettings ((lib, forceRecreate) # calls) p =
     inits2 k cfg instanceSettings calls (init2 k cfg instanceSettings lib forceRecreate p)"

text \<open>A call without \<^verbatim>\<open>forceRecreate\<close>: the argument keeps its default, false.\<close>

definition plain :: "sdk \<times> string \<Rightarrow> sdk \<times> string \<times> bool" where
  "plain c = (fst c, snd c, False)"

definition plain2 :: "sdk \<Rightarrow> sdk \<times> bool" where
  "plain2 lib = (lib, False)"

subsection \<open>The feature-change reactor\<close>

text \<open>
  The features the SDK hands to the callback: a map from feature names to values. A
  message on the command channel carries its command name.
\<close>

type_synonym TFeatures = "feature \<rightharpoonup> feature_value"

record PubSubCommand =
  command :: string

text \<open>
  What the reactor acts on: the orchestration service, the command channel as the list
  of the messages published so far (oldest first), the read-only switch of the object
  store, and for the first class its field \<^verbatim>\<open>redisPublisher\<close>, which is unset until the
  reactor has fetched the publisher once.
\<close>

record world =
  orchestrationService :: OrchestrationService
  redisPublisher :: bool
  commandChannel :: "PubSubCommand list"
  objectStore_readonly :: bool

definition publishToCommandChannel :: "PubSubCommand \<Rightarrow> world \<Rightarrow> world" where
  \<comment> \<open>Modelled from the spec: the publisher of the command channel, which is not among
     the sources ("publish message ... to a shared channel").\<close>
  "publishToCommandChannel msg w = w\<lparr>commandChannel := commandChannel w @ [msg]\<rparr>"

definition setReadonly :: "bool \<Rightarrow> world \<Rightarrow> world" where
  \<comment> \<open>Modelled from the spec: the object store's \<^verbatim>\<open>setReadonly(bool)\<close>, which is not among
     the sources.\<close>
  "setReadonly newState w = w\<lparr>objectStore_readonly := newState\<rparr>"

text \<open>
  First class, lines 159 to 180: the statements after the multi-main block, which run
  unless that block has returned. \<^verbatim>\<open>isS3Licensed\<close> is the constant \<^verbatim>\<open>true\<close>; the line that
  read it from the features is commented out.
\<close>

definition publish_and_storage :: "config \<Rightarrow> TFeatures \<Rightarrow> world \<Rightarrow> world" where
  "publish_and_storage cfg features w =
     (let w1 =
            (if executions_mode cfg = ''queue''
             then publishToCommandChannel \<lparr>command = ''reloadLicense''\<rparr>
                    (if \<not> redisPublisher w then w\<lparr>redisPublisher := True\<rparr> else w)
             else w);
          isS3Selected = (binaryDataManager_mode cfg = ''s3'');
          isS3Available = (''s3'' \<in> set (binaryDataManager_availableModes cfg));
          isS3Licensed = True
      in if isS3Selected \<and> isS3Available \<and> \<not> isS3Licensed then setReadonly True w1 else w1)"

text \<open>
  First class, lines 133 to 181. \<^verbatim>\<open>isMultiMainLicensed\<close> is the constant \<^verbatim>\<open>true\<close>; the
  follower test reads both properties from the orchestration service. The second test
  of the block (multi-main enabled and not licensed) guards a log message only and has
  no counterpart here.
\<close>

definition onFeatureChange ::
  "(OrchestrationService \<Rightarrow> bool) \<Rightarrow> config \<Rightarrow> TFeatures \<Rightarrow> world \<Rightarrow> world" where
  "onFeatureChange isMultiMainSetupEnabled cfg features w =
     (if executions_mode cfg = ''queue'' \<and> multiMainSetup_enabled cfg then
        let isMultiMainLicensed = True;
            w1 = w\<lparr>orchestrationService :=
                     setMultiMainSetupLicensed isMultiMainLicensed (orchestrationService w)\<rparr>
        in if isMultiMainSetupEnabled (orchestrationService w1)
              \<and> orchestration_isFollower (orchestrationService w1)
           then w1
           else publish_and_storage cfg features w1
      else publish_and_storage cfg features w)"

text \<open>
  Second class, lines 579 to 595: the publisher is fetched from the container at every
  call and the command is named \<^verbatim>\<open>reload-license\<close>.
\<close>

definition publish_and_storage2 :: "config \<Rightarrow> TFeatures \<Rightarrow> world \<Rightarrow> world" where
  "publish_and_storage2 cfg features w =
     (let w1 =
            (if executions_mode cfg = ''queue''
             then publishToCommandChannel \<lparr>command = ''reload-license''\<rparr> w
             else w);
          isS3Selected = (binaryDataManager_mode cfg = ''s3'');
          isS3Available = (''s3'' \<in> set (binaryDataManager_availableModes cfg));
          isS3Licensed = True
      in if isS3Selected \<and> isS3Available \<and> \<not> isS3Licensed then setReadonly True w1 else w1)"

text \<open>
  Second class, lines 554 to 596: the follower test reads \<^verbatim>\<open>isFollower\<close> from
  \<^verbatim>\<open>this.instanceSettings\<close>.
\<close>

definition onFeatureChange2 ::
  "(OrchestrationService \<Rightarrow> bool) \<Rightarrow> config \<Rightarrow> InstanceSettings \<Rightarrow> TFeatures \<Rightarrow> world \<Rightarrow> world" where
  "onFeatureChange2 isMultiMainSetupEnabled cfg instanceSettings features w =
     (if executions_mode cfg = ''queue'' \<and> multiMainSetup_enabled cfg then
        let isMultiMainLicensed = True;
            w1 = w\<lparr>orchestrationService :=
                     setMultiMainSetupLicensed isMultiMainLicensed (orchestrationService w)\<rparr>
        in if isMultiMainSetupEnabled (orchestrationService w1) \<and> isFollower instanceSettings
           then w1
           else publish_and_storage2 cfg features w1
      else publish_and_storage2 cfg features w)"

subsection \<open>Quota helpers\<close>

text \<open>
  \<^verbatim>\<open>getUsersLimit\<close> no longer asks the manager (that line is commented out in both
  classes) and \<^verbatim>\<open>isWithinUsersLimit\<close> compares its result with the same constant.
  The state of the object is an argument that neither method reads.
\<close>

definition getUsersLimit :: "constants \<Rightarrow> License \<Rightarrow> int" where
  "getUsersLimit k this = UNLIMITED_LICENSE_QUOTA k"

definition isWithinUsersLimit :: "constants \<Rightarrow> License \<Rightarrow> bool" where
  "isWithinUsersLimit k this = (getUsersLimit k this = UNLIMITED_LICENSE_QUOTA k)"

section \<open>Concrete inputs for the examples\<close>

text \<open>
  A set of constants, the configuration of a single regular instance with automatic
  renewal switched on, a settings table that holds a certificate, and the collaborators
  in their initial state. The examples below vary them field by field.
\<close>

definition example_constants :: constants where
  "example_constants =
     \<lparr>SETTINGS_LICENSE_CERT_KEY = ''license.cert'', UNLIMITED_LICENSE_QUOTA = - 1,
      N8N_VERSION = ''1.0.0''\<rparr>"

definition example_config :: config where
  "example_config =
     \<lparr>license_serverUrl = ''https://license.n8n.io/v1'',
      license_tenantId = 1,
      license_autoRenewEnabled = True,
      license_autoRenewOffset = 259200,
      license_cert = [],
      executions_mode = ''regular'',
      multiMainSetup_enabled = False,
      multiMainSetup_instanceType = ''unset'',
      binaryDataManager_mode = ''default'',
      binaryDataManager_availableModes = [''filesystem'']\<rparr>"

definition example_repo :: SettingsRepository where
  "example_repo =
     [''license.cert'' \<mapsto> \<lparr>settings_value = ''stored-cert'', loadOnStartup = False\<rparr>]"

definition example_instanceSettings :: InstanceSettings where
  "example_instanceSettings =
     \<lparr>instanceType = ''main'', instanceId = ''n8n-1'', isFollower = False\<rparr>"

definition example_world :: world where
  "example_world =
     \<lparr>orchestrationService =
        \<lparr>isMultiMainSetupLicensed = False, orchestration_isFollower = False\<rparr>,
      redisPublisher = False,
      commandChannel = [],
      objectStore_readonly = False\<rparr>"

text \<open>A getter that reports the multi-main setup as enabled once it is licensed.\<close>

definition example_isMultiMainSetupEnabled :: "OrchestrationService \<Rightarrow> bool" where
  "example_isMultiMainSetupEnabled orch = isMultiMainSetupLicensed orch"

text \<open>An SDK whose calls all return, and one whose constructor throws.\<close>

definition sdk_ok :: sdk where
  "sdk_ok = \<lparr>new_LicenseManager = Returns, initialize = Returns\<rparr>"

definition sdk_constructor_throws :: sdk where
  "sdk_constructor_throws = \<lparr>new_LicenseManager = Throws, initialize = Returns\<rparr>"

section \<open>Properties\<close>

subsection \<open>The state facade without a provider\<close>

lemma assertProvider_set:
  "assertProvider (setLicenseProvider provider s) = Inr provider"
  by (simp add: assertProvider_def setLicenseProvider_def)

lemma isLicensed_after_set:
  "isLicensed (setLicenseProvider provider s) feature = Inr (provider_isLicensed provider feature)"
  by (simp add: isLicensed_def assertProvider_set)

lemma getValue_after_set:
  "getValue (setLicenseProvider provider s) feature = Inr (provider_getValue provider feature)"
  by (simp add: getValue_def assertProvider_set)

text \<open>
  Claim C5. For every feature flag, \<^verbatim>\<open>isLicensed\<close> and \<^verbatim>\<open>getValue\<close> called while no
  provider is installed throw the provider-not-set error: the result is the error, never
  a value of any kind.
\<close>

theorem C5_provider_not_set:
  "licenseProvider s = None \<Longrightarrow>
     isLicensed s feature = Inl ProviderNotSetError
     \<and> getValue s feature' = Inl ProviderNotSetError"
  by (simp add: isLicensed_def getValue_def assertProvider_def)

theorem C5_provider_not_set_witness:
  "licenseProvider new_LicenseState = None
   \<and> isLicensed new_LicenseState ''feat:sharing'' = Inl ProviderNotSetError
   \<and> getValue new_LicenseState ''quota:users'' = Inl ProviderNotSetError"
proof -
  have h: "licenseProvider new_LicenseState = None"
    by (simp add: new_LicenseState_def)
  show ?thesis
    using h C5_provider_not_set [OF h, of "''feat:sharing''" "''quota:users''"]
    by simp
qed

subsection \<open>Renewal eligibility\<close>

lemma renewalEnabled_iff:
  "renewalEnabled cfg instType \<longleftrightarrow>
     instType = ''main'' \<and> multiMainSetup_enabled cfg \<and> license_autoRenewEnabled cfg
     \<and> multiMainSetup_instanceType cfg = ''leader''"
  by (simp add: renewalEnabled_def Let_def)

text \<open>
  Claim C3 gives three rows of a truth table. The first row fails: for the role
  \<^verbatim>\<open>main\<close>, automatic renewal switched on and the multi-main setup switched off, the
  claim has renewal enabled, and both classes return false.
\<close>

theorem C3_renewal_row1_counterexample:
  "license_autoRenewEnabled example_config
   \<and> \<not> multiMainSetup_enabled example_config
   \<and> \<not> renewalEnabled example_config ''main''
   \<and> \<not> renewalEnabled2 example_config
         \<lparr>instanceType = ''main'', instanceId = ''n8n-1'', isFollower = False\<rparr>"
  by (simp add: renewalEnabled_iff renewalEnabled2_def example_config_def)

text \<open>
  Claim C3, amended. With role \<^verbatim>\<open>main\<close>, automatic renewal on and the multi-main setup
  off, renewal is disabled; with role \<^verbatim>\<open>main\<close>, automatic renewal on, the multi-main setup
  on and this instance not the leader, renewal is disabled; for every role other than
  \<^verbatim>\<open>main\<close> renewal is disabled whatever the other flags. The second class returns false
  for every input.
\<close>

theorem C3_renewal_truth_table:
  "(instType = ''main'' \<and> license_autoRenewEnabled cfg \<and> \<not> multiMainSetup_enabled cfg
      \<longrightarrow> \<not> renewalEnabled cfg instType)
   \<and> (instType = ''main'' \<and> license_autoRenewEnabled cfg \<and> multiMainSetup_enabled cfg
        \<and> multiMainSetup_instanceType cfg \<noteq> ''leader''
      \<longrightarrow> \<not> renewalEnabled cfg instType)
   \<and> (instType \<noteq> ''main'' \<longrightarrow> \<not> renewalEnabled cfg instType)
   \<and> \<not> renewalEnabled2 cfg instanceSettings"
  by (simp add: renewalEnabled_iff renewalEnabled2_def)

theorem C3_renewal_truth_table_witness:
  "\<not> renewalEnabled (example_config\<lparr>license_autoRenewEnabled := True\<rparr>) ''main''
   \<and> \<not> renewalEnabled
         (example_config\<lparr>multiMainSetup_enabled := True,
            multiMainSetup_instanceType := ''follower''\<rparr>) ''main''
   \<and> \<not> renewalEnabled example_config ''worker''"
  using C3_renewal_truth_table [of "''main''" "example_config\<lparr>license_autoRenewEnabled := True\<rparr>"]
    C3_renewal_truth_table [of "''main''" "example_config\<lparr>multiMainSetup_enabled := True,
            multiMainSetup_instanceType := ''follower''\<rparr>"]
    C3_renewal_truth_table [of "''worker''" example_config]
  by (simp add: example_config_def)

subsection \<open>The certificate store\<close>

text \<open>
  Claim C6. Whenever an ephemeral certificate is configured, \<^verbatim>\<open>loadCertStr\<close> returns it
  whatever the settings table holds, and \<^verbatim>\<open>saveCertStr\<close> leaves the settings table as it
  was, for every certificate it is given.
\<close>

theorem C6_ephemeral_certificate:
  "license_cert cfg \<noteq> [] \<Longrightarrow>
     loadCertStr k cfg repo = license_cert cfg \<and> saveCertStr k cfg val repo = repo"
  by (simp add: loadCertStr_def saveCertStr_def)

theorem C6_ephemeral_certificate_witness:
  "loadCertStr example_constants (example_config\<lparr>license_cert := ''ephemeral-cert''\<rparr>) example_repo
     = ''ephemeral-cert''
   \<and> saveCertStr example_constants (example_config\<lparr>license_cert := ''ephemeral-cert''\<rparr>)
        ''renewed-cert'' example_repo = example_repo"
  using C6_ephemeral_certificate [of "example_config\<lparr>license_cert := ''ephemeral-cert''\<rparr>"
      example_constants example_repo "''renewed-cert''"]
  by simp

text \<open>
  Claim C9. With no ephemeral certificate configured, \<^verbatim>\<open>saveCertStr\<close> of any value
  followed by \<^verbatim>\<open>loadCertStr\<close> returns that value, whatever the table held before.
\<close>

theorem C9_save_load_roundtrip:
  "license_cert cfg = [] \<Longrightarrow> loadCertStr k cfg (saveCertStr k cfg val repo) = val"
  by (simp add: loadCertStr_def saveCertStr_def findOne_def upsert_def)

theorem C9_save_load_roundtrip_witness:
  "loadCertStr example_constants example_config
     (saveCertStr example_constants example_config ''renewed-cert'' example_repo) = ''renewed-cert''"
  using C9_save_load_roundtrip [of example_config example_constants "''renewed-cert''" example_repo]
  by (simp add: example_config_def)

subsection \<open>The lifecycle of the manager handle\<close>

text \<open>A call of \<^verbatim>\<open>init\<close> that takes one of the early returns, or whose constructor throws.\<close>

lemma init_handle_present:
  "manager (license p) \<noteq> None \<Longrightarrow> init k cfg lib instType False p = p"
  by (simp add: init_def)

lemma init2_handle_present:
  "manager (license p) \<noteq> None \<Longrightarrow> init2 k cfg instanceSettings lib False p = p"
  by (simp add: init2_def)

lemma init_shutting_down:
  "isShuttingDown (license p) \<Longrightarrow> init k cfg lib instType forceRecreate p = p"
  by (simp add: init_def)

lemma init2_shutting_down:
  "isShuttingDown (license p) \<Longrightarrow> init2 k cfg instanceSettings lib forceRecreate p = p"
  by (simp add: init2_def)

lemma init_constructor_throws:
  "new_LicenseManager lib = Throws \<Longrightarrow> init k cfg lib instType forceRecreate p = p"
  by (simp add: init_def Let_def)

lemma init2_constructor_throws:
  "new_LicenseManager lib = Throws \<Longrightarrow> init2 k cfg instanceSettings lib forceRecreate p = p"
  by (simp add: init2_def Let_def)

text \<open>
  A call that passes both guards and whose constructor returns installs a new handle,
  whether or not \<^verbatim>\<open>initialize\<close> throws afterwards.
\<close>

lemma init_constructs:
  assumes "manager (license p) = None \<or> forceRecreate" "\<not> isShuttingDown (license p)"
    "new_LicenseManager lib = Returns"
  shows "\<exists>m. ident m = length (constructed p)
           \<and> manager (license (init k cfg lib instType forceRecreate p)) = Some m
           \<and> constructed (init k cfg lib instType forceRecreate p) = constructed p @ [m]
           \<and> isShuttingDown (license (init k cfg lib instType forceRecreate p)) = False"
  using assms by (cases "initialize lib") (auto simp add: init_def Let_def)

lemma init2_constructs:
  assumes "manager (license p) = None \<or> forceRecreate" "\<not> isShuttingDown (license p)"
    "new_LicenseManager lib = Returns"
  shows "\<exists>m. ident m = length (constructed p)
           \<and> manager (license (init2 k cfg instanceSettings lib forceRecreate p)) = Some m
           \<and> constructed (init2 k cfg instanceSettings lib forceRecreate p) = constructed p @ [m]
           \<and> isShuttingDown (license (init2 k cfg instanceSettings lib forceRecreate p)) = False"
  using assms by (cases "initialize lib") (auto simp add: init2_def Let_def)

text \<open>Sequences of calls.\<close>

lemma inits_append:
  "inits k cfg (xs @ ys) p = inits k cfg ys (inits k cfg xs p)"
  by (induction xs arbitrary: p) auto

lemma inits2_append:
  "inits2 k cfg instanceSettings (xs @ ys) p
     = inits2 k cfg instanceSettings ys (inits2 k cfg instanceSettings xs p)"
  by (induction xs arbitrary: p) auto

lemma inits_plain_Cons:
  "inits k cfg (plain c # calls) p = inits k cfg calls (init k cfg (fst c) (snd c) False p)"
  by (simp add: plain_def)

lemma inits2_plain_Cons:
  "inits2 k cfg instanceSettings (plain2 lib # calls) p
     = inits2 k cfg instanceSettings calls (init2 k cfg instanceSettings lib False p)"
  by (simp add: plain2_def)

lemma inits_handle_present:
  "manager (license p) \<noteq> None \<Longrightarrow> inits k cfg (map plain cs) p = p"
  by (induction cs) (simp_all add: inits_plain_Cons init_handle_present)

lemma inits2_handle_present:
  "manager (license p) \<noteq> None \<Longrightarrow> inits2 k cfg instanceSettings (map plain2 ls) p = p"
  by (induction ls) (simp_all add: inits2_plain_Cons init2_handle_present)

lemma inits_shutting_down:
  "isShuttingDown (license p) \<Longrightarrow> inits k cfg calls p = p"
  by (induction calls) (auto simp add: init_shutting_down)

lemma inits2_shutting_down:
  "isShuttingDown (license p) \<Longrightarrow> inits2 k cfg instanceSettings calls p = p"
  by (induction calls) (auto simp add: init2_shutting_down)

lemma inits_constructor_throws:
  "\<forall>c\<in>set cs. new_LicenseManager (fst c) = Throws \<Longrightarrow> inits k cfg (map plain cs) p = p"
  by (induction cs) (simp_all add: inits_plain_Cons init_constructor_throws)

lemma inits2_constructor_throws:
  "\<forall>lib\<in>set ls. new_LicenseManager lib = Throws \<Longrightarrow>
     inits2 k cfg instanceSettings (map plain2 ls) p = p"
  by (induction ls) (simp_all add: inits2_plain_Cons init2_constructor_throws)

lemma init_at_most_one:
  "init k cfg lib instType forceRecreate p = p
   \<or> (manager (license (init k cfg lib instType forceRecreate p)) \<noteq> None
      \<and> length (constructed (init k cfg lib instType forceRecreate p))
          = Suc (length (constructed p)))"
  by (cases "new_LicenseManager lib"; cases "initialize lib") (simp_all add: init_def Let_def)

lemma init2_at_most_one:
  "init2 k cfg instanceSettings lib forceRecreate p = p
   \<or> (manager (license (init2 k cfg instanceSettings lib forceRecreate p)) \<noteq> None
      \<and> length (constructed (init2 k cfg instanceSettings lib forceRecreate p))
          = Suc (length (constructed p)))"
  by (cases "new_LicenseManager lib"; cases "initialize lib") (simp_all add: init2_def Let_def)

lemma inits_at_most_one:
  "length (constructed (inits k cfg (map plain cs) p)) \<le> Suc (length (constructed p))"
proof (induction cs arbitrary: p)
  case Nil
  show ?case by simp
next
  case (Cons c cs)
  let ?q = "init k cfg (fst c) (snd c) False p"
  from init_at_most_one [of k cfg "fst c" "snd c" False p]
  show ?case
  proof
    assume "?q = p"
    with Cons.IH [of p] show ?thesis by (simp add: inits_plain_Cons)
  next
    assume q: "manager (license ?q) \<noteq> None
      \<and> length (constructed ?q) = Suc (length (constructed p))"
    then have "inits k cfg (map plain cs) ?q = ?q"
      by (simp add: inits_handle_present)
    with q show ?thesis by (simp add: inits_plain_Cons)
  qed
qed

lemma inits2_at_most_one:
  "length (constructed (inits2 k cfg instanceSettings (map plain2 ls) p))
     \<le> Suc (length (constructed p))"
proof (induction ls arbitrary: p)
  case Nil
  show ?case by simp
next
  case (Cons l ls)
  let ?q = "init2 k cfg instanceSettings l False p"
  from init2_at_most_one [of k cfg instanceSettings l False p]
  show ?case
  proof
    assume "?q = p"
    with Cons.IH [of p] show ?thesis by (simp add: inits2_plain_Cons)
  next
    assume q: "manager (license ?q) \<noteq> None
      \<and> length (constructed ?q) = Suc (length (constructed p))"
    then have "inits2 k cfg instanceSettings (map plain2 ls) ?q = ?q"
      by (simp add: inits2_handle_present)
    with q show ?thesis by (simp add: inits2_plain_Cons)
  qed
qed

lemma inits_first_success:
  assumes "manager (license p) = None" "\<not> isShuttingDown (license p)"
    "\<forall>c\<in>set pre. new_LicenseManager (fst c) = Throws" "new_LicenseManager (fst c) = Returns"
  shows "inits k cfg (map plain pre) p = p
    \<and> (\<exists>m. ident m = length (constructed p)
           \<and> manager (license (inits k cfg (map plain (pre @ [c])) p)) = Some m
           \<and> constructed (inits k cfg (map plain (pre @ [c])) p) = constructed p @ [m])
    \<and> inits k cfg (map plain (pre @ c # post)) p = inits k cfg (map plain (pre @ [c])) p"
proof -
  let ?q = "init k cfg (fst c) (snd c) False p"
  have pre: "inits k cfg (map plain pre) p = p"
    using assms(3) by (rule inits_constructor_throws)
  have one: "inits k cfg (map plain (pre @ [c])) p = ?q"
    by (simp add: inits_append pre inits_plain_Cons)
  from assms(1,2,4) init_constructs [where p = p and forceRecreate = False and lib = "fst c"
      and k = k and cfg = cfg and instType = "snd c"]
  obtain m where m: "ident m = length (constructed p)" "manager (license ?q) = Some m"
    "constructed ?q = constructed p @ [m]"
    by blast
  from m(2) have "inits k cfg (map plain post) ?q = ?q"
    by (simp add: inits_handle_present)
  then have post: "inits k cfg (map plain (pre @ c # post)) p = ?q"
    by (simp add: inits_append pre inits_plain_Cons)
  from pre one m post show ?thesis by simp
qed

lemma inits2_first_success:
  assumes "manager (license p) = None" "\<not> isShuttingDown (license p)"
    "\<forall>lib\<in>set pre. new_LicenseManager lib = Throws" "new_LicenseManager lib = Returns"
  shows "inits2 k cfg instanceSettings (map plain2 pre) p = p
    \<and> (\<exists>m. ident m = length (constructed p)
           \<and> manager (license (inits2 k cfg instanceSettings (map plain2 (pre @ [lib])) p)) = Some m
           \<and> constructed (inits2 k cfg instanceSettings (map plain2 (pre @ [lib])) p)
               = constructed p @ [m])
    \<and> inits2 k cfg instanceSettings (map plain2 (pre @ lib # post)) p
           = inits2 k cfg instanceSettings (map plain2 (pre @ [lib])) p"
proof -
  let ?q = "init2 k cfg instanceSettings lib False p"
  have pre: "inits2 k cfg instanceSettings (map plain2 pre) p = p"
    using assms(3) by (rule inits2_constructor_throws)
  have one: "inits2 k cfg instanceSettings (map plain2 (pre @ [lib])) p = ?q"
    by (simp add: inits2_append pre inits2_plain_Cons)
  from assms(1,2,4) init2_constructs [where p = p and forceRecreate = False and lib = lib
      and k = k and cfg = cfg and instanceSettings = instanceSettings]
  obtain m where m: "ident m = length (constructed p)" "manager (license ?q) = Some m"
    "constructed ?q = constructed p @ [m]"
    by blast
  from m(2) have "inits2 k cfg instanceSettings (map plain2 post) ?q = ?q"
    by (simp add: inits2_handle_present)
  then have post: "inits2 k cfg instanceSettings (map plain2 (pre @ lib # post)) p = ?q"
    by (simp add: inits2_append pre inits2_plain_Cons)
  from pre one m post show ?thesis by simp
qed

text \<open>With \<^verbatim>\<open>forceRecreate\<close> a call replaces the handle by a new one.\<close>

lemma init_force_recreates_example:
  "manager (license (init example_constants example_config sdk_ok ''main'' True
       (init example_constants example_config sdk_ok ''main'' False new_License)))
   \<noteq> manager (license (init example_constants example_config sdk_ok ''main'' False new_License))"
  by (simp add: init_def new_License_def sdk_ok_def Let_def)

text \<open>
  Claim C1 says that in a sequence of \<^verbatim>\<open>init\<close> calls without \<^verbatim>\<open>forceRecreate\<close> only the
  first call constructs a handle and every later call returns early. That fails when the
  constructor throws in the first call: the \<^verbatim>\<open>catch\<close> block leaves the handle absent, so
  the second call passes both guards and constructs one.
\<close>

theorem C1_second_call_constructs_counterexample:
  "manager (license (inits example_constants example_config
       (map plain [(sdk_constructor_throws, ''main'')]) new_License)) = None
   \<and> constructed (inits example_constants example_config
       (map plain [(sdk_constructor_throws, ''main'')]) new_License) = []
   \<and> manager (license (inits example_constants example_config
       (map plain [(sdk_constructor_throws, ''main''), (sdk_ok, ''main'')]) new_License)) \<noteq> None
   \<and> length (constructed (inits example_constants example_config
       (map plain [(sdk_constructor_throws, ''main''), (sdk_ok, ''main'')]) new_License)) = 1
   \<and> manager (license (inits2 example_constants example_config example_instanceSettings
       (map plain2 [sdk_constructor_throws]) new_License)) = None
   \<and> manager (license (inits2 example_constants example_config example_instanceSettings
       (map plain2 [sdk_constructor_throws, sdk_ok]) new_License)) \<noteq> None"
  by (simp add: plain_def plain2_def init_def init2_def new_License_def sdk_ok_def
      sdk_constructor_throws_def Let_def)

text \<open>
  Claim C1, amended. In every sequence of \<^verbatim>\<open>init\<close> calls without \<^verbatim>\<open>forceRecreate\<close>, from
  any state, at most one call constructs a handle. When a handle is present, every call
  returns early and leaves the state as it is. On an object without a handle that is not
  shutting down, the calls whose constructor throws leave the state as it is, the first
  call whose constructor returns installs a new handle, and every call after that one
  returns early without modifying the handle: the state after the whole sequence is
  the state right after that call. Both classes behave so.
\<close>

theorem C1_init_constructs_once:
  "length (constructed (inits k cfg (map plain cs) p)) \<le> Suc (length (constructed p))
   \<and> (manager (license p) \<noteq> None \<longrightarrow> inits k cfg (map plain cs) p = p)
   \<and> (manager (license p) = None \<and> \<not> isShuttingDown (license p)
        \<and> (\<forall>c\<in>set pre. new_LicenseManager (fst c) = Throws)
        \<and> new_LicenseManager (fst c) = Returns
      \<longrightarrow> inits k cfg (map plain pre) p = p
        \<and> (\<exists>m. ident m = length (constructed p)
              \<and> manager (license (inits k cfg (map plain (pre @ [c])) p)) = Some m
              \<and> constructed (inits k cfg (map plain (pre @ [c])) p) = constructed p @ [m])
        \<and> inits k cfg (map plain (pre @ c # post)) p = inits k cfg (map plain (pre @ [c])) p)
   \<and> length (constructed (inits2 k cfg instanceSettings (map plain2 ls) p))
       \<le> Suc (length (constructed p))
   \<and> (manager (license p) \<noteq> None \<longrightarrow> inits2 k cfg instanceSettings (map plain2 ls) p = p)
   \<and> (manager (license p) = None \<and> \<not> isShuttingDown (license p)
        \<and> (\<forall>lib\<in>set pre'. new_LicenseManager lib = Throws)
        \<and> new_LicenseManager lib = Returns
      \<longrightarrow> inits2 k cfg instanceSettings (map plain2 pre') p = p
        \<and> (\<exists>m. ident m = length (constructed p)
              \<and> manager (license (inits2 k cfg instanceSettings (map plain2 (pre' @ [lib])) p))
                  = Some m
              \<and> constructed (inits2 k cfg instanceSettings (map plain2 (pre' @ [lib])) p)
                  = constructed p @ [m])
        \<and> inits2 k cfg instanceSettings (map plain2 (pre' @ lib # post')) p
            = inits2 k cfg instanceSettings (map plain2 (pre' @ [lib])) p)"
  using inits_at_most_one [of k cfg cs p] inits_handle_present [of p k cfg cs]
    inits_first_success [where p = p and pre = pre and c = c and k = k and cfg = cfg
      and post = post]
    inits2_at_most_one [of k cfg instanceSettings ls p]
    inits2_handle_present [of p k cfg instanceSettings ls]
    inits2_first_success [where p = p and pre = pre' and lib = lib and k = k and cfg = cfg
      and instanceSettings = instanceSettings and post = post']
  by blast

theorem C1_init_constructs_once_witness:
  "inits example_constants example_config
      (map plain ([(sdk_constructor_throws, ''main'')] @ (sdk_ok, ''main'')
         # [(sdk_ok, ''main''), (sdk_ok, ''worker'')])) new_License
     = inits example_constants example_config
      (map plain ([(sdk_constructor_throws, ''main'')] @ [(sdk_ok, ''main'')])) new_License
   \<and> (\<exists>m. ident m = length (constructed new_License)
        \<and> manager (license (inits example_constants example_config
            (map plain ([(sdk_constructor_throws, ''main'')] @ [(sdk_ok, ''main'')])) new_License))
          = Some m)
   \<and> inits2 example_constants example_config example_instanceSettings
      (map plain2 ([] @ sdk_ok # [sdk_constructor_throws, sdk_ok])) new_License
     = inits2 example_constants example_config example_instanceSettings
      (map plain2 ([] @ [sdk_ok])) new_License
   \<and> inits example_constants example_config (map plain [(sdk_ok, ''main''), (sdk_ok, ''main'')])
        (init example_constants example_config sdk_ok ''main'' False new_License)
     = init example_constants example_config sdk_ok ''main'' False new_License"
proof -
  have fresh: "manager (license new_License) = None \<and> \<not> isShuttingDown (license new_License)"
    by (simp add: new_License_def)
  have first: "(\<forall>c\<in>set [(sdk_constructor_throws, ''main'')]. new_LicenseManager (fst c) = Throws)
      \<and> new_LicenseManager (fst (sdk_ok, ''main'')) = Returns"
    by (simp add: sdk_ok_def sdk_constructor_throws_def)
  have second: "(\<forall>lib\<in>set []. new_LicenseManager lib = Throws)
      \<and> new_LicenseManager sdk_ok = Returns"
    by (simp add: sdk_ok_def)
  have present: "manager (license
      (init example_constants example_config sdk_ok ''main'' False new_License)) \<noteq> None"
    by (simp add: init_def new_License_def sdk_ok_def Let_def)
  from fresh first second
    C1_init_constructs_once [where p = new_License and k = example_constants
      and cfg = example_config and pre = "[(sdk_constructor_throws, ''main'')]"
      and c = "(sdk_ok, ''main'')" and post = "[(sdk_ok, ''main''), (sdk_ok, ''worker'')]"
      and instanceSettings = example_instanceSettings
      and pre' = "[]" and lib = sdk_ok and post' = "[sdk_constructor_throws, sdk_ok]"]
  have a: "inits example_constants example_config
      (map plain ([(sdk_constructor_throws, ''main'')] @ (sdk_ok, ''main'')
         # [(sdk_ok, ''main''), (sdk_ok, ''worker'')])) new_License
     = inits example_constants example_config
      (map plain ([(sdk_constructor_throws, ''main'')] @ [(sdk_ok, ''main'')])) new_License
   \<and> (\<exists>m. ident m = length (constructed new_License)
        \<and> manager (license (inits example_constants example_config
            (map plain ([(sdk_constructor_throws, ''main'')] @ [(sdk_ok, ''main'')])) new_License))
          = Some m)
   \<and> inits2 example_constants example_config example_instanceSettings
      (map plain2 ([] @ sdk_ok # [sdk_constructor_throws, sdk_ok])) new_License
     = inits2 example_constants example_config example_instanceSettings
      (map plain2 ([] @ [sdk_ok])) new_License"
    by blast
  from present
    C1_init_constructs_once [where
      p = "init example_constants example_config sdk_ok ''main'' False new_License"
      and k = example_constants and cfg = example_config
      and cs = "[(sdk_ok, ''main''), (sdk_ok, ''main'')]"]
  have b: "inits example_constants example_config
        (map plain [(sdk_ok, ''main''), (sdk_ok, ''main'')])
        (init example_constants example_config sdk_ok ''main'' False new_License)
     = init example_constants example_config sdk_ok ''main'' False new_License"
    by blast
  from a b show ?thesis by simp
qed

text \<open>
  Claim C2. \<^verbatim>\<open>shutdown\<close> sets the flag and keeps the handle; from then on every call of
  \<^verbatim>\<open>init\<close>, with or without \<^verbatim>\<open>forceRecreate\<close>, and every \<^verbatim>\<open>reinit\<close>, leaves the state as
  it is, whatever the SDK would do: no handle is constructed and the handle is not
  replaced.
\<close>

theorem C2_no_init_after_shutdown:
  "isShuttingDown (license (shutdown p))
   \<and> manager (license (shutdown p)) = manager (license p)
   \<and> constructed (shutdown p) = constructed p
   \<and> inits k cfg calls (shutdown p) = shutdown p
   \<and> inits2 k cfg instanceSettings calls' (shutdown p) = shutdown p
   \<and> reinit k cfg lib (shutdown p) = shutdown p
   \<and> reinit2 k cfg instanceSettings lib (shutdown p) = shutdown p"
proof -
  have sd: "isShuttingDown (license (shutdown p))"
    by (simp add: shutdown_def)
  then show ?thesis
    by (simp add: inits_shutting_down inits2_shutting_down init_shutting_down
        init2_shutting_down reinit_def reinit2_def)
      (simp add: shutdown_def)
qed

theorem C2_no_init_after_shutdown_witness:
  "inits example_constants example_config
      [(sdk_ok, ''main'', True), (sdk_ok, ''main'', False)]
      (shutdown (init example_constants example_config sdk_ok ''main'' False new_License))
     = shutdown (init example_constants example_config sdk_ok ''main'' False new_License)
   \<and> length (constructed (shutdown
        (init example_constants example_config sdk_ok ''main'' False new_License))) = 1
   \<and> inits2 example_constants example_config example_instanceSettings
      [(sdk_ok, True), (sdk_ok, False)] (shutdown new_License) = shutdown new_License"
  using C2_no_init_after_shutdown [where
      p = "init example_constants example_config sdk_ok ''main'' False new_License"
      and k = example_constants and cfg = example_config
      and calls = "[(sdk_ok, ''main'', True), (sdk_ok, ''main'', False)]"]
    C2_no_init_after_shutdown [where p = new_License
      and k = example_constants and cfg = example_config
      and instanceSettings = example_instanceSettings
      and calls' = "[(sdk_ok, True), (sdk_ok, False)]"]
  by (simp add: init_def new_License_def sdk_ok_def Let_def)

subsection \<open>The feature-change reactor\<close>

lemma publish_and_storage_readonly:
  "objectStore_readonly (publish_and_storage cfg features w) = objectStore_readonly w"
  by (simp add: publish_and_storage_def publishToCommandChannel_def Let_def)

lemma publish_and_storage2_readonly:
  "objectStore_readonly (publish_and_storage2 cfg features w) = objectStore_readonly w"
  by (simp add: publish_and_storage2_def publishToCommandChannel_def Let_def)

lemma onFeatureChange_readonly:
  "objectStore_readonly (onFeatureChange g cfg features w) = objectStore_readonly w"
  by (simp add: onFeatureChange_def publish_and_storage_readonly Let_def)

lemma onFeatureChange2_readonly:
  "objectStore_readonly (onFeatureChange2 g cfg instanceSettings features w) = objectStore_readonly w"
  by (simp add: onFeatureChange2_def publish_and_storage2_readonly Let_def)

lemma commandChannel_publish_and_storage:
  "commandChannel (publish_and_storage cfg features w) =
     (if executions_mode cfg = ''queue''
      then commandChannel w @ [\<lparr>command = ''reloadLicense''\<rparr>] else commandChannel w)"
  by (simp add: publish_and_storage_def publishToCommandChannel_def Let_def)

lemma commandChannel_publish_and_storage2:
  "commandChannel (publish_and_storage2 cfg features w) =
     (if executions_mode cfg = ''queue''
      then commandChannel w @ [\<lparr>command = ''reload-license''\<rparr>] else commandChannel w)"
  by (simp add: publish_and_storage2_def publishToCommandChannel_def Let_def)

text \<open>
  Claim C4 says that with binary-data mode \<^verbatim>\<open>s3\<close>, \<^verbatim>\<open>s3\<close> available and the S3 feature
  not licensed in the received features, the reactor sets the object store read-only.
  It does not: \<^verbatim>\<open>isS3Licensed\<close> is the constant \<^verbatim>\<open>true\<close> in both classes, so the received
  features are never consulted.
\<close>

theorem C4_s3_unlicensed_counterexample:
  "binaryDataManager_mode
       (example_config\<lparr>binaryDataManager_mode := ''s3'',
          binaryDataManager_availableModes := [''filesystem'', ''s3'']\<rparr>) = ''s3''
   \<and> ''s3'' \<in> set (binaryDataManager_availableModes
       (example_config\<lparr>binaryDataManager_mode := ''s3'',
          binaryDataManager_availableModes := [''filesystem'', ''s3'']\<rparr>))
   \<and> [''feat:binaryDataS3'' \<mapsto> Bool False] ''feat:binaryDataS3'' = Some (Bool False)
   \<and> \<not> objectStore_readonly
         (onFeatureChange example_isMultiMainSetupEnabled
            (example_config\<lparr>binaryDataManager_mode := ''s3'',
               binaryDataManager_availableModes := [''filesystem'', ''s3'']\<rparr>)
            [''feat:binaryDataS3'' \<mapsto> Bool False] example_world)
   \<and> \<not> objectStore_readonly
         (onFeatureChange2 example_isMultiMainSetupEnabled
            (example_config\<lparr>binaryDataManager_mode := ''s3'',
               binaryDataManager_availableModes := [''filesystem'', ''s3'']\<rparr>)
            example_instanceSettings
            [''feat:binaryDataS3'' \<mapsto> Bool False] example_world)"
  by (simp add: onFeatureChange_def onFeatureChange2_def publish_and_storage_def
      publish_and_storage2_def example_config_def example_world_def Let_def)

text \<open>
  Claim C4, amended. For every invocation of the reactor, whatever the binary-data mode,
  the available modes and the received features, the read-only switch of the object store
  keeps the value it had; repeating the invocation with the same inputs leaves it
  unchanged again.
\<close>

theorem C4_readonly_never_set:
  "objectStore_readonly (onFeatureChange g cfg features w) = objectStore_readonly w
   \<and> objectStore_readonly (onFeatureChange g cfg features (onFeatureChange g cfg features w))
       = objectStore_readonly w
   \<and> objectStore_readonly (onFeatureChange2 g cfg instanceSettings features w)
       = objectStore_readonly w
   \<and> objectStore_readonly
         (onFeatureChange2 g cfg instanceSettings features
            (onFeatureChange2 g cfg instanceSettings features w))
       = objectStore_readonly w"
  by (simp add: onFeatureChange_readonly onFeatureChange2_readonly)

text \<open>
  Claim C7. With execution mode \<^verbatim>\<open>queue\<close>, the multi-main setup enabled (in the
  configuration, and as the orchestration service reports it once the flag is set) and
  this instance a follower, the reactor sets the multi-main-licensed flag of the
  orchestration service and returns: nothing else changes, and no message is published
  to the command channel.
\<close>

theorem C7_follower_skips_publish:
  "executions_mode cfg = ''queue'' \<Longrightarrow> multiMainSetup_enabled cfg \<Longrightarrow>
   isMultiMainSetupEnabled (setMultiMainSetupLicensed True (orchestrationService w)) \<Longrightarrow>
     (orchestration_isFollower (orchestrationService w) \<longrightarrow>
        onFeatureChange isMultiMainSetupEnabled cfg features w
          = w\<lparr>orchestrationService := setMultiMainSetupLicensed True (orchestrationService w)\<rparr>
        \<and> isMultiMainSetupLicensed
            (orchestrationService (onFeatureChange isMultiMainSetupEnabled cfg features w))
        \<and> commandChannel (onFeatureChange isMultiMainSetupEnabled cfg features w)
            = commandChannel w)
     \<and> (isFollower instanceSettings \<longrightarrow>
        onFeatureChange2 isMultiMainSetupEnabled cfg instanceSettings features w
          = w\<lparr>orchestrationService := setMultiMainSetupLicensed True (orchestrationService w)\<rparr>
        \<and> isMultiMainSetupLicensed
            (orchestrationService
               (onFeatureChange2 isMultiMainSetupEnabled cfg instanceSettings features w))
        \<and> commandChannel (onFeatureChange2 isMultiMainSetupEnabled cfg instanceSettings features w)
            = commandChannel w)"
  by (simp add: onFeatureChange_def onFeatureChange2_def setMultiMainSetupLicensed_def Let_def)

theorem C7_follower_skips_publish_witness:
  "onFeatureChange example_isMultiMainSetupEnabled
      (example_config\<lparr>executions_mode := ''queue'', multiMainSetup_enabled := True\<rparr>)
      Map.empty
      (example_world\<lparr>orchestrationService :=
         \<lparr>isMultiMainSetupLicensed = False, orchestration_isFollower = True\<rparr>\<rparr>)
     = example_world\<lparr>orchestrationService :=
         \<lparr>isMultiMainSetupLicensed = True, orchestration_isFollower = True\<rparr>\<rparr>
   \<and> commandChannel
        (onFeatureChange2 example_isMultiMainSetupEnabled
           (example_config\<lparr>executions_mode := ''queue'', multiMainSetup_enabled := True\<rparr>)
           (example_instanceSettings\<lparr>isFollower := True\<rparr>)
           Map.empty example_world) = []"
  using C7_follower_skips_publish [of
      "example_config\<lparr>executions_mode := ''queue'', multiMainSetup_enabled := True\<rparr>"
      example_isMultiMainSetupEnabled
      "example_world\<lparr>orchestrationService :=
         \<lparr>isMultiMainSetupLicensed = False, orchestration_isFollower = True\<rparr>\<rparr>"
      Map.empty "example_instanceSettings\<lparr>isFollower := True\<rparr>"]
    C7_follower_skips_publish [of
      "example_config\<lparr>executions_mode := ''queue'', multiMainSetup_enabled := True\<rparr>"
      example_isMultiMainSetupEnabled
      example_world
      Map.empty "example_instanceSettings\<lparr>isFollower := True\<rparr>"]
  by (simp add: example_isMultiMainSetupEnabled_def setMultiMainSetupLicensed_def
      example_world_def)

text \<open>
  Claim C8 names the published command \<^verbatim>\<open>reload-license\<close>. The first class publishes
  \<^verbatim>\<open>reloadLicense\<close> instead.
\<close>

theorem C8_command_name_counterexample:
  "executions_mode (example_config\<lparr>executions_mode := ''queue''\<rparr>) = ''queue''
   \<and> \<not> multiMainSetup_enabled (example_config\<lparr>executions_mode := ''queue''\<rparr>)
   \<and> commandChannel
        (onFeatureChange example_isMultiMainSetupEnabled
           (example_config\<lparr>executions_mode := ''queue''\<rparr>) Map.empty example_world)
       = [\<lparr>command = ''reloadLicense''\<rparr>]
   \<and> \<lparr>command = ''reload-license''\<rparr> \<notin> set (commandChannel
        (onFeatureChange example_isMultiMainSetupEnabled
           (example_config\<lparr>executions_mode := ''queue''\<rparr>) Map.empty example_world))"
  by (simp add: onFeatureChange_def commandChannel_publish_and_storage example_config_def
      example_world_def)

text \<open>
  Claim C8, amended. With execution mode \<^verbatim>\<open>queue\<close>, when this instance is the leader
  (the code asks: not a follower) or the multi-main setup is disabled (in the
  configuration, or as the orchestration service reports it), the reactor publishes
  exactly one message to the command channel: the command \<^verbatim>\<open>reload-license\<close> in the
  second class, the command \<^verbatim>\<open>reloadLicense\<close> in the first.
\<close>

theorem C8_publishes_one_reload_command:
  "executions_mode cfg = ''queue'' \<Longrightarrow>
     (\<not> multiMainSetup_enabled cfg
        \<or> \<not> isMultiMainSetupEnabled (setMultiMainSetupLicensed True (orchestrationService w))
        \<or> \<not> orchestration_isFollower (orchestrationService w)
      \<longrightarrow> commandChannel (onFeatureChange isMultiMainSetupEnabled cfg features w)
            = commandChannel w @ [\<lparr>command = ''reloadLicense''\<rparr>])
     \<and> (\<not> multiMainSetup_enabled cfg
        \<or> \<not> isMultiMainSetupEnabled (setMultiMainSetupLicensed True (orchestrationService w))
        \<or> \<not> isFollower instanceSettings
      \<longrightarrow> commandChannel (onFeatureChange2 isMultiMainSetupEnabled cfg instanceSettings features w)
            = commandChannel w @ [\<lparr>command = ''reload-license''\<rparr>])"
  by (auto simp add: onFeatureChange_def onFeatureChange2_def setMultiMainSetupLicensed_def
      commandChannel_publish_and_storage commandChannel_publish_and_storage2 Let_def)

theorem C8_publishes_one_reload_command_witness:
  "commandChannel
      (onFeatureChange example_isMultiMainSetupEnabled
         (example_config\<lparr>executions_mode := ''queue'', multiMainSetup_enabled := True\<rparr>)
         Map.empty example_world)
     = [\<lparr>command = ''reloadLicense''\<rparr>]
   \<and> commandChannel
      (onFeatureChange2 example_isMultiMainSetupEnabled
         (example_config\<lparr>executions_mode := ''queue'', multiMainSetup_enabled := True\<rparr>)
         example_instanceSettings Map.empty example_world)
     = [\<lparr>command = ''reload-license''\<rparr>]"
  using C8_publishes_one_reload_command [of
      "example_config\<lparr>executions_mode := ''queue'', multiMainSetup_enabled := True\<rparr>"
      example_isMultiMainSetupEnabled example_world Map.empty example_instanceSettings]
  by (simp add: example_world_def example_instanceSettings_def)

subsection \<open>The users quota\<close>

text \<open>
  Claim C10. In every state of the \<^verbatim>\<open>License\<close> object, whatever its manager and
  entitlements, \<^verbatim>\<open>isWithinUsersLimit\<close> returns true: \<^verbatim>\<open>getUsersLimit\<close> returns the
  unlimited-quota constant and the result is compared with that constant.
\<close>

theorem C10_isWithinUsersLimit:
  "getUsersLimit k this = UNLIMITED_LICENSE_QUOTA k \<and> isWithinUsersLimit k this"
  by (simp add: isWithinUsersLimit_def getUsersLimit_def)

end
